theory Spec2Isabelle
  imports Complex_Main "HOL-Library.Sublist"
begin

section \<open>Tetrahedral symmetry function (src/symfunc/Tetrahedral.cpp)\<close>

text \<open>
  The C++ type \<^verbatim>\<open>double\<close> is idealised as the type \<^typ>\<open>real\<close>: the
  arithmetic of the formulas is the exact arithmetic of the real field, \<^verbatim>\<open>pow(a, n)\<close>
  with a literal integer exponent is the power \<open>a ^ n\<close>, and \<^verbatim>\<open>sqrt\<close> is the real
  square root.  Rounding, infinities and NaN are outside the model; a division whose
  denominator is zero is excluded by hypothesis wherever a statement depends on it.
\<close>

text \<open>A \<^verbatim>\<open>Vector\<close> is three doubles, read with \<^verbatim>\<open>operator[]\<close> at 0, 1 and 2.\<close>

datatype Vector = Vector (v0: real) (v1: real) (v2: real)

text \<open>
  Modelled from the spec: \<^verbatim>\<open>Vector::modulo\<close> (tools/Vector.h is not among the
  sources) is the Euclidean length \<open>r = sqrt(x^2+y^2+z^2)\<close>.
\<close>

definition Vector_modulo :: "Vector \<Rightarrow> real" where
  "Vector_modulo d = sqrt ((v0 d)\<^sup>2 + (v1 d)\<^sup>2 + (v2 d)\<^sup>2)"

text \<open>Scalar times vector (\<^verbatim>\<open>val*myder\<close>) and the inverted vector \<open>-d\<close>.\<close>

definition scale :: "real \<Rightarrow> Vector \<Rightarrow> Vector" where
  "scale a d = Vector (a * v0 d) (a * v1 d) (a * v2 d)"

definition invert :: "Vector \<Rightarrow> Vector" where
  "invert d = Vector (- v0 d) (- v1 d) (- v2 d)"

text \<open>
  Lines 125--149 of \<^verbatim>\<open>Tetrahedral::compute\<close>: the local variables, in the order of
  the source, ending in the per-neighbour value \<open>tmp\<close> and the derivative vector
  \<open>myder\<close>.
\<close>

definition compute_locals :: "Vector \<Rightarrow> real \<times> Vector" where
  "compute_locals distance =
    (let sp1 = v0 distance + v1 distance + v2 distance;
         sp2 = v0 distance - v1 distance - v2 distance;
         sp3 = - v0 distance + v1 distance - v2 distance;
         sp4 = - v0 distance - v1 distance + v2 distance;
         sp1c = sp1 ^ 3;
         sp2c = sp2 ^ 3;
         sp3c = sp3 ^ 3;
         sp4c = sp4 ^ 3;
         d1 = Vector_modulo distance;
         r3 = d1 ^ 3;
         r5 = d1 ^ 5;
         tmp = sp1c / r3 + sp2c / r3 + sp3c / r3 + sp4c / r3;
         t1 = (3 * sp1c) / r5; tt1 = (3 * sp1 * sp1) / r3;
         t2 = (3 * sp2c) / r5; tt2 = (3 * sp2 * sp2) / r3;
         t3 = (3 * sp3c) / r5; tt3 = (3 * sp3 * sp3) / r3;
         t4 = (3 * sp4c) / r5; tt4 = (3 * sp4 * sp4) / r3;
         myder0 = (tt1 - (v0 distance * t1)) + (tt2 - (v0 distance * t2))
                + (- tt3 - (v0 distance * t3)) + (- tt4 - (v0 distance * t4));
         myder1 = (tt1 - (v1 distance * t1)) + (- tt2 - (v1 distance * t2))
                + (tt3 - (v1 distance * t3)) + (- tt4 - (v1 distance * t4));
         myder2 = (tt1 - (v2 distance * t1)) + (- tt2 - (v2 distance * t2))
                + (- tt3 - (v2 distance * t3)) + (tt4 - (v2 distance * t4))
     in (tmp, Vector myder0 myder1 myder2))"

definition compute_tmp :: "Vector \<Rightarrow> real" where
  "compute_tmp distance = fst (compute_locals distance)"

definition compute_myder :: "Vector \<Rightarrow> Vector" where
  "compute_myder distance = snd (compute_locals distance)"

text \<open>
  The three accumulation helpers of \<^verbatim>\<open>SymmetryFunctionBase\<close> are not among the
  sources; \<^verbatim>\<open>compute\<close> takes them as parameters and threads the scratch buffer
  \<open>myvals\<close> through them in the order of lines 152--154.
\<close>

record 'm SymmetryFunctionBase =
  addToValue :: "nat \<Rightarrow> real \<Rightarrow> 'm \<Rightarrow> 'm"
  addWeightDerivative :: "nat \<Rightarrow> real \<Rightarrow> 'm \<Rightarrow> 'm"
  addVectorDerivatives :: "nat \<Rightarrow> Vector \<Rightarrow> 'm \<Rightarrow> 'm"

definition compute :: "'m SymmetryFunctionBase \<Rightarrow> real \<Rightarrow> Vector \<Rightarrow> 'm \<Rightarrow> 'm" where
  "compute base val distance myvals =
    (let tmp = compute_tmp distance;
         myder = compute_myder distance;
         myvals1 = addToValue base 0 (val * tmp) myvals;
         myvals2 = addWeightDerivative base 0 tmp myvals1
     in addVectorDerivatives base 0 (scale val myder) myvals2)"

text \<open>
  The function of the documentation block and of the specification,
  \<open>f(x,y,z) = ((x+y+z)^3 + (x-y-z)^3 + (-x+y-z)^3 + (-x-y+z)^3) / r^3\<close>, written
  from those words to be compared with what the code computes.
\<close>

definition spec_f :: "real \<Rightarrow> real \<Rightarrow> real \<Rightarrow> real" where
  "spec_f x y z =
     ((x + y + z) ^ 3 + (x - y - z) ^ 3 + (- x + y - z) ^ 3 + (- x - y + z) ^ 3)
       / (sqrt (x\<^sup>2 + y\<^sup>2 + z\<^sup>2)) ^ 3"


definition central_difference :: "(real \<Rightarrow> real) \<Rightarrow> real \<Rightarrow> real \<Rightarrow> real" where
  "central_difference g x h = (g (x + h) - g (x - h)) / (2 * h)"

section \<open>Grid-function evaluation (src/gridtools/EvaluateFunctionOnGrid.cpp)\<close>

subsection \<open>Data\<close>

text \<open>
  Modelled from the spec: a \<^verbatim>\<open>Value\<close> (core/Value.h is not among the sources) is
  a named output with an ordered sequence of dimension sizes; its rank is the number of
  dimensions.
\<close>

record Value =
  getName :: string
  getShape :: "nat list"

definition getRank :: "Value \<Rightarrow> nat" where
  "getRank v = length (getShape v)"

text \<open>
  Modelled from the spec: \<^verbatim>\<open>Action::error\<close> (core/Action.h is not among the
  sources) aborts the construction with a configuration error that carries the text it
  is given.  \<open>OutOfRange\<close> stands for the read of \<^verbatim>\<open>argv[0]\<close> from an empty vector,
  which C++ leaves undefined.
\<close>

datatype error = ConfigurationError string | OutOfRange

text \<open>
  What \<^verbatim>\<open>getInfoForGridHeader\<close> of the upstream action fills in; the vectors
  \<^verbatim>\<open>min\<close> and \<^verbatim>\<open>max\<close> of the source are the fields \<open>gmin\<close> and \<open>gmax\<close>.
\<close>

record GridHeader =
  gtype :: string
  argn :: "string list"
  gmin :: "string list"
  gmax :: "string list"
  nbin :: "nat list"
  spacing :: "real list"
  pbc :: "bool list"

text \<open>
  The per-task scratch buffer \<^verbatim>\<open>MultiValue\<close>: one value and one row of derivative
  slots per stream.
\<close>

record MultiValue =
  stream_values :: "nat \<Rightarrow> real"
  stream_derivatives :: "nat \<Rightarrow> nat \<Rightarrow> real"

text \<open>
  Modelled from the spec: \<^verbatim>\<open>MultiValue::addValue\<close> and
  \<^verbatim>\<open>MultiValue::addDerivative\<close> (tools/MultiValue.h is not among the sources)
  accumulate into the value of a stream and into one derivative slot of a stream.
\<close>

definition addValue :: "nat \<Rightarrow> real \<Rightarrow> MultiValue \<Rightarrow> MultiValue" where
  "addValue iv val myvals = myvals\<lparr>stream_values := (stream_values myvals)(iv := stream_values myvals iv + val)\<rparr>"

definition addDerivative :: "nat \<Rightarrow> nat \<Rightarrow> real \<Rightarrow> MultiValue \<Rightarrow> MultiValue" where
  "addDerivative iv jder der myvals =
     myvals\<lparr>stream_derivatives := (stream_derivatives myvals)
        (iv := (stream_derivatives myvals iv)(jder := stream_derivatives myvals iv jder + der))\<rparr>"

text \<open>
  The collaborators of the class that are not among the sources (the base classes
  \<^verbatim>\<open>ActionWithInputGrid\<close>, \<^verbatim>\<open>ActionWithArguments\<close>,
  \<^verbatim>\<open>ActionWithValue\<close> and the upstream action), as the constructor and the task
  function see them once the base-class constructors have returned.
\<close>

record ActionOptions =
  getPntrToArgument0 :: Value
  getInfoForGridHeader :: GridHeader
  interpretArgumentList :: "string list \<Rightarrow> error + Value list"
  requestArguments :: "Value list \<Rightarrow> (string \<times> nat) list"
  createTasksFromArguments :: "Value list \<Rightarrow> nat list"
  setupActionInChain :: "nat \<Rightarrow> nat"
  doNotCalculateDerivatives :: bool
  getPositionInStream :: nat
  retrieveArguments :: "MultiValue \<Rightarrow> nat \<Rightarrow> nat \<Rightarrow> real list"
  getFunctionValueAndDerivatives :: "real list \<Rightarrow> real \<times> real list"

text \<open>
  The state of a constructed \<^verbatim>\<open>EvaluateFunctionOnGrid\<close> object: the member
  \<open>nderivatives\<close> of the class, the members it inherits and sets in its constructor, and
  the lines it prints to \<^verbatim>\<open>log\<close>.
\<close>

record EvaluateFunctionOnGrid =
  arg_ends :: "nat list"
  arguments :: "Value list"
  distinct_arguments :: "(string \<times> nat) list"
  output_shape :: "nat list"
  output_has_derivatives :: bool
  output_periodic :: bool
  tasks :: "nat list"
  nderivatives :: nat
  firststep :: bool
  gridobject :: "GridHeader option"
  log_lines :: "string list"

definition getNumberOfArguments :: "EvaluateFunctionOnGrid \<Rightarrow> nat" where
  "getNumberOfArguments a = length (arguments a)"

subsection \<open>The constructor\<close>

text \<open>Lines 63--65: the loop over the dimensions \<open>j\<close> of one argument.\<close>

fun shape_loop :: "Value \<Rightarrow> Value \<Rightarrow> nat list \<Rightarrow> error + unit" where
  "shape_loop a0 ai [] = Inr ()"
| "shape_loop a0 ai (j # js) =
     (if getShape a0 ! j \<noteq> getShape ai ! j
      then Inl (ConfigurationError ''mismatched shapes for arguments'')
      else shape_loop a0 ai js)"

text \<open>Lines 61--66: the loop over the arguments \<open>argv[1]\<close>, \<open>argv[2]\<close>, ...\<close>

fun argument_loop :: "Value \<Rightarrow> Value list \<Rightarrow> error + unit" where
  "argument_loop a0 [] = Inr ()"
| "argument_loop a0 (ai # rest) =
     (if getRank a0 \<noteq> getRank ai
      then Inl (ConfigurationError ''mismatched ranks for arguments'')
      else (case shape_loop a0 ai [0..<getRank a0] of
              Inl e \<Rightarrow> Inl e
            | Inr u \<Rightarrow> argument_loop a0 rest))"

definition check_arguments :: "Value list \<Rightarrow> error + unit" where
  "check_arguments argv = (case argv of [] \<Rightarrow> Inr () | a0 # rest \<Rightarrow> argument_loop a0 rest)"

text \<open>
  Lines 45--87.  The flag \<open>firststep\<close> and the empty grid object are set by the
  constructor of \<^verbatim>\<open>ActionWithInputGrid\<close>; modelled from the spec: the flag starts
  true.
\<close>

definition EvaluateFunctionOnGrid_ctor :: "ActionOptions \<Rightarrow> error + EvaluateFunctionOnGrid" where
  "EvaluateFunctionOnGrid_ctor ao =
    (let gval = getPntrToArgument0 ao;
         hdr = getInfoForGridHeader ao
     in if gtype hdr = ''fibonacci''
        then Inl (ConfigurationError ''cannot interpolate on fibonacci sphere'')
        else
          (let ends = 1 # map (\<lambda>i. 2 + i) [0..<getRank gval]
           in case interpretArgumentList ao (argn hdr) of
                Inl e \<Rightarrow> Inl e
              | Inr argv \<Rightarrow>
                 (case check_arguments argv of
                    Inl e \<Rightarrow> Inl e
                  | Inr u \<Rightarrow>
                     (let req_arg = gval # argv;
                          lg = [''  arguments for grid are'']
                               @ map (\<lambda>v. '' '' @ getName v) argv @ [[CHR 0x0A]];
                          distinct = requestArguments ao req_arg
                      in case argv of
                           [] \<Rightarrow> Inl OutOfRange
                         | a0 # rest \<Rightarrow>
                            (let shape = map (\<lambda>i. getShape a0 ! i) [0..<getRank a0];
                                 n = length req_arg
                             in Inr \<lparr> arg_ends = ends,
                                      arguments = req_arg,
                                      distinct_arguments = distinct,
                                      output_shape = shape,
                                      output_has_derivatives = (length shape = 0),
                                      output_periodic = False,
                                      tasks = createTasksFromArguments ao req_arg,
                                      nderivatives =
                                        (if length distinct > 0 then setupActionInChain ao 1 else n),
                                      firststep = True,
                                      gridobject = None,
                                      log_lines = lg \<rparr>)))))"

subsection \<open>The pass-preparation hook\<close>

text \<open>
  Modelled from the spec: \<^verbatim>\<open>setupGridObject\<close> (a member of
  \<^verbatim>\<open>ActionWithInputGrid\<close>, which is not among the sources) derives the grid
  metadata (shape, spacing, periodicity) from the header of the upstream action and flips
  \<open>firststep\<close> to false.
\<close>

definition setupGridObject :: "ActionOptions \<Rightarrow> EvaluateFunctionOnGrid \<Rightarrow> EvaluateFunctionOnGrid" where
  "setupGridObject ao a = a\<lparr>gridobject := Some (getInfoForGridHeader ao), firststep := False\<rparr>"

text \<open>Lines 89--91.\<close>

definition prepareForTasks ::
  "ActionOptions \<Rightarrow> nat \<Rightarrow> nat list \<Rightarrow> EvaluateFunctionOnGrid \<Rightarrow> EvaluateFunctionOnGrid" where
  "prepareForTasks ao nactive pTaskList a = (if firststep a then setupGridObject ao a else a)"

subsection \<open>The task function\<close>

text \<open>
  Lines 93--102.  \<^verbatim>\<open>unsigned nargs = getNumberOfArguments() - 1\<close> wraps modulo
  \<open>2^32\<close>.  The loop that would store the derivatives is commented out in the source
  (line 101), so both branches of the test on line 99 return the same buffer.
\<close>

definition performTask ::
  "ActionOptions \<Rightarrow> EvaluateFunctionOnGrid \<Rightarrow> nat \<Rightarrow> MultiValue \<Rightarrow> MultiValue" where
  "performTask ao a current myvals =
    (let nargs = (getNumberOfArguments a + 2 ^ 32 - 1) mod 2 ^ 32;
         ostrn = getPositionInStream ao;
         args = retrieveArguments ao myvals nargs 1;
         (func, der) = getFunctionValueAndDerivatives ao args;
         myvals1 = addValue ostrn func myvals
     in if doNotCalculateDerivatives ao then myvals1 else myvals1)"

text \<open>
  The task function as the specification words it, for comparison: the value goes to the
  output stream and, when derivatives are requested, the partial derivative with respect
  to the \<open>i\<close>-th sampled coordinate goes to slot \<open>i\<close> of that stream (the loop of the
  commented line 101).
\<close>

fun add_derivatives :: "nat \<Rightarrow> nat \<Rightarrow> real list \<Rightarrow> MultiValue \<Rightarrow> MultiValue" where
  "add_derivatives ostrn i [] myvals = myvals"
| "add_derivatives ostrn i (d # ds) myvals =
     add_derivatives ostrn (Suc i) ds (addDerivative ostrn i d myvals)"

definition spec_performTask ::
  "ActionOptions \<Rightarrow> EvaluateFunctionOnGrid \<Rightarrow> nat \<Rightarrow> MultiValue \<Rightarrow> MultiValue" where
  "spec_performTask ao a current myvals =
    (let nargs = (getNumberOfArguments a + 2 ^ 32 - 1) mod 2 ^ 32;
         ostrn = getPositionInStream ao;
         args = retrieveArguments ao myvals nargs 1;
         (func, der) = getFunctionValueAndDerivatives ao args;
         myvals1 = addValue ostrn func myvals
     in if doNotCalculateDerivatives ao then myvals1
        else add_derivatives ostrn 0 (take nargs der) myvals1)"

subsection \<open>Concrete inputs used by the witnesses\<close>

definition scalar_arguments :: "string list \<Rightarrow> error + Value list" where
  "scalar_arguments names = Inr (map (\<lambda>n. \<lparr>getName = n, getShape = []\<rparr>) names)"

definition example_header :: GridHeader where
  "example_header = \<lparr> gtype = ''flat'', argn = [''x''], gmin = [''0''], gmax = [''1''],
                       nbin = [10], spacing = [1 / 10], pbc = [False] \<rparr>"

definition example_options :: ActionOptions where
  "example_options =
     \<lparr> getPntrToArgument0 = \<lparr>getName = ''grid'', getShape = [10]\<rparr>,
       getInfoForGridHeader = example_header,
       interpretArgumentList = scalar_arguments,
       requestArguments = (\<lambda>req. []),
       createTasksFromArguments = (\<lambda>req. [0]),
       setupActionInChain = (\<lambda>n. 7),
       doNotCalculateDerivatives = False,
       getPositionInStream = 2,
       retrieveArguments = (\<lambda>myvals n start. map (stream_values myvals) [start..<start + n]),
       getFunctionValueAndDerivatives = (\<lambda>args. (sum_list (map (\<lambda>x. x * x) args), map (\<lambda>x. 2 * x) args)) \<rparr>"

definition example_myvals :: MultiValue where
  "example_myvals = \<lparr> stream_values = (\<lambda>i. if i = 1 then 3 else 0), stream_derivatives = (\<lambda>i j. 0) \<rparr>"


definition example_action :: EvaluateFunctionOnGrid where
  "example_action =
     \<lparr> arg_ends = [1, 2],
       arguments = [\<lparr>getName = ''grid'', getShape = [10]\<rparr>, \<lparr>getName = ''x'', getShape = []\<rparr>],
       distinct_arguments = [],
       output_shape = [],
       output_has_derivatives = True,
       output_periodic = False,
       tasks = [0],
       nderivatives = 2,
       firststep = True,
       gridobject = None,
       log_lines = [''  arguments for grid are'', '' x'', [CHR 0x0A]] \<rparr>"

text \<open>
  The same collaborators, with a grid whose header names the given values as its
  coordinates and an argument resolver that returns exactly them.
\<close>

definition options_with_arguments :: "Value list \<Rightarrow> ActionOptions" where
  "options_with_arguments argv =
     example_options
       \<lparr> getPntrToArgument0 := \<lparr>getName = ''grid'', getShape = replicate (length argv) 10\<rparr>,
         getInfoForGridHeader := example_header\<lparr>argn := map getName argv\<rparr>,
         interpretArgumentList := (\<lambda>names. Inr argv) \<rparr>"

definition fibonacci_options :: ActionOptions where
  "fibonacci_options =
     example_options\<lparr>getInfoForGridHeader := example_header\<lparr>gtype := ''fibonacci''\<rparr>\<rparr>"

definition chained_options :: ActionOptions where
  "chained_options = example_options\<lparr>requestArguments := (\<lambda>req. [(''upstream'', 0)])\<rparr>"

text \<open>
  Two argument lists whose shapes disagree at different places: the second argument in
  dimension 0, and the third argument in dimension 1.
\<close>

definition mismatch_second_argument :: "Value list" where
  "mismatch_second_argument =
     [\<lparr>getName = ''cv1'', getShape = [10, 5]\<rparr>, \<lparr>getName = ''cv2'', getShape = [12, 5]\<rparr>]"

definition mismatch_third_argument :: "Value list" where
  "mismatch_third_argument =
     [\<lparr>getName = ''cv1'', getShape = [10, 5]\<rparr>, \<lparr>getName = ''cv2'', getShape = [10, 5]\<rparr>,
      \<lparr>getName = ''cv3'', getShape = [10, 7]\<rparr>]"

text \<open>
  A buffer that records, in order, the calls \<^verbatim>\<open>compute\<close> makes to the three
  accumulation helpers.
\<close>

datatype accumulation =
    AddToValue nat real
  | AddWeightDerivative nat real
  | AddVectorDerivatives nat Vector

definition recording_base :: "(accumulation list) SymmetryFunctionBase" where
  "recording_base =
     \<lparr> addToValue = (\<lambda>i v calls. calls @ [AddToValue i v]),
       addWeightDerivative = (\<lambda>i v calls. calls @ [AddWeightDerivative i v]),
       addVectorDerivatives = (\<lambda>i v calls. calls @ [AddVectorDerivatives i v]) \<rparr>"

section \<open>Properties of the tetrahedral function\<close>

lemma compute_tmp_eq_spec_f: "compute_tmp (Vector x y z) = spec_f x y z"
  by (simp add: compute_tmp_def compute_locals_def Let_def Vector_modulo_def spec_f_def
      add_divide_distrib)

lemma Vector_modulo_invert: "Vector_modulo (invert d) = Vector_modulo d"
  by (simp add: Vector_modulo_def invert_def)

lemma compute_tmp_unit_x: "compute_tmp (Vector 1 0 0) = 0"
  by (simp add: compute_tmp_def compute_locals_def Let_def Vector_modulo_def)

lemma compute_myder_unit_x: "compute_myder (Vector 1 0 0) = Vector 0 0 0"
  by (simp add: compute_myder_def compute_locals_def Let_def Vector_modulo_def)

text \<open>
  Claim C3, as stated: at \<open>(x,y,z) = (1,0,0)\<close> the per-neighbour value computed by
  \<^verbatim>\<open>Tetrahedral::compute\<close> is 2.  It is not: the four cubes are \<open>1, 1, -1, -1\<close>
  and cancel.
\<close>

theorem C3_value_at_unit_x_is_not_two: "compute_tmp (Vector 1 0 0) \<noteq> 2"
  by (simp add: compute_tmp_unit_x)

text \<open>
  Claim C3, amended: at \<open>(x,y,z) = (1,0,0)\<close> the per-neighbour value computed by
  \<^verbatim>\<open>Tetrahedral::compute\<close> is 0, which is also the value of the stated formula
  \<open>f\<close> there; with weight 1 the function accumulates the value 0, the weight
  derivative 0 and the zero vector.
\<close>

theorem C3_value_at_unit_x_is_zero:
  "compute_tmp (Vector 1 0 0) = 0 \<and> spec_f 1 0 0 = 0 \<and>
   compute recording_base 1 (Vector 1 0 0) [] =
     [AddToValue 0 0, AddWeightDerivative 0 0, AddVectorDerivatives 0 (Vector 0 0 0)]"
proof -
  have "spec_f 1 0 0 = 0"
    using compute_tmp_eq_spec_f [of 1 0 0] by (simp add: compute_tmp_unit_x)
  moreover have "compute recording_base 1 (Vector 1 0 0) [] =
     [AddToValue 0 0, AddWeightDerivative 0 0, AddVectorDerivatives 0 (Vector 0 0 0)]"
    by (simp add: compute_def recording_base_def Let_def compute_tmp_unit_x
        compute_myder_unit_x scale_def)
  ultimately show ?thesis by (simp add: compute_tmp_unit_x)
qed

text \<open>
  Claim C10: for every distance vector \<open>d\<close> with nonzero modulus, the per-neighbour
  value at \<open>-d\<close> is the negation of the value at \<open>d\<close>, and the modulus is unchanged.
\<close>

theorem C10_compute_tmp_odd:
  assumes "Vector_modulo d \<noteq> 0"
  shows "compute_tmp (invert d) = - compute_tmp d \<and> Vector_modulo (invert d) = Vector_modulo d"
proof -
  obtain x y z where d: "d = Vector x y z" by (cases d)
  have s1: "(- x - y - z) ^ 3 = - ((x + y + z) ^ 3)"
    by (simp add: power3_eq_cube algebra_simps)
  have s2: "(y - x + z) ^ 3 = - ((x - y - z) ^ 3)"
    by (simp add: power3_eq_cube algebra_simps)
  have s3: "(x - y + z) ^ 3 = - ((- x + y - z) ^ 3)"
    by (simp add: power3_eq_cube algebra_simps)
  have s4: "(x + y - z) ^ 3 = - ((- x - y + z) ^ 3)"
    by (simp add: power3_eq_cube algebra_simps)
  have "compute_tmp (invert d) = - compute_tmp d"
    unfolding compute_tmp_def compute_locals_def Let_def Vector_modulo_invert
    by (simp add: d invert_def s1 s2 s3 s4)
  then show ?thesis by (simp add: Vector_modulo_invert)
qed

theorem C10_compute_tmp_odd_witness:
  "Vector_modulo (Vector 1 2 2) \<noteq> 0 \<and>
   compute_tmp (Vector (- 1) (- 2) (- 2)) = - compute_tmp (Vector 1 2 2)"
proof -
  have nz: "Vector_modulo (Vector 1 2 2) \<noteq> 0"
    by (simp add: Vector_modulo_def)
  show ?thesis
    using nz C10_compute_tmp_odd [OF nz] by (simp add: invert_def)
qed

lemma has_derivative_over_cube:
  fixes N r :: "real \<Rightarrow> real"
  assumes N: "(N has_real_derivative N') (at x)"
    and r: "(r has_real_derivative r') (at x)"
    and nz: "r x \<noteq> 0"
  shows "((\<lambda>t. N t / (r t) ^ 3) has_real_derivative (N' / (r x) ^ 3 - 3 * r' * N x / (r x) ^ 4)) (at x)"
proof -
  have "((\<lambda>t. N t / (r t) ^ 3) has_real_derivative
          (N' * (r x) ^ 3 - N x * (3 * (r x) ^ 2 * r')) / ((r x) ^ 3 * (r x) ^ 3)) (at x)"
    using nz by (auto intro!: derivative_eq_intros N r simp: power2_eq_square power3_eq_cube)
  moreover have "(N' * (r x) ^ 3 - N x * (3 * (r x) ^ 2 * r')) / ((r x) ^ 3 * (r x) ^ 3)
      = N' / (r x) ^ 3 - 3 * r' * N x / (r x) ^ 4"
    using nz by (simp add: field_simps power2_eq_square power3_eq_cube power4_eq_xxxx)
  ultimately show ?thesis by simp
qed

lemma has_derivative_radius:
  fixes x a :: real
  assumes "x\<^sup>2 + a \<noteq> 0" "0 \<le> a"
  shows "((\<lambda>t. sqrt (t\<^sup>2 + a)) has_real_derivative (x / sqrt (x\<^sup>2 + a))) (at x)"
proof -
  have pos: "0 < x\<^sup>2 + a" using assms by (smt (verit) zero_le_power2)
  show ?thesis
    using pos by (auto intro!: derivative_eq_intros simp: field_simps)
qed


lemma compute_myder_components:
  "compute_myder (Vector x y z) =
    (let r = sqrt (x\<^sup>2 + y\<^sup>2 + z\<^sup>2);
         a = x + y + z; b = x - y - z; c = - x + y - z; e = - x - y + z;
         N = a ^ 3 + b ^ 3 + c ^ 3 + e ^ 3
     in Vector ((3 * a\<^sup>2 + 3 * b\<^sup>2 - 3 * c\<^sup>2 - 3 * e\<^sup>2) / r ^ 3 - 3 * x * N / r ^ 5)
               ((3 * a\<^sup>2 - 3 * b\<^sup>2 + 3 * c\<^sup>2 - 3 * e\<^sup>2) / r ^ 3 - 3 * y * N / r ^ 5)
               ((3 * a\<^sup>2 - 3 * b\<^sup>2 - 3 * c\<^sup>2 + 3 * e\<^sup>2) / r ^ 3 - 3 * z * N / r ^ 5))"
  unfolding compute_myder_def compute_locals_def Let_def Vector_modulo_def snd_conv Vector.sel Vector.inject
  by (simp add: power2_eq_square add_divide_distrib diff_divide_distrib distrib_left right_diff_distrib algebra_simps)

lemma spec_f_derivative_x:
  assumes nz: "sqrt (x\<^sup>2 + y\<^sup>2 + z\<^sup>2) \<noteq> 0"
  shows "((\<lambda>t. spec_f t y z) has_real_derivative v0 (compute_myder (Vector x y z))) (at x)"
proof -
  let ?a = "y\<^sup>2 + z\<^sup>2"
  let ?r = "\<lambda>t. sqrt (t\<^sup>2 + ?a)"
  let ?N = "\<lambda>t. (t + y + z) ^ 3 + (t - y - z) ^ 3 + (- t + y - z) ^ 3 + (- t - y + z) ^ 3"
  let ?N' = "3 * (x + y + z)\<^sup>2 + 3 * (x - y - z)\<^sup>2 - 3 * (- x + y - z)\<^sup>2 - 3 * (- x - y + z)\<^sup>2"
  have rx: "?r x \<noteq> 0" using nz by (simp add: add.assoc)
  then have sx: "x\<^sup>2 + ?a \<noteq> 0" by auto
  have dr: "(?r has_real_derivative (x / ?r x)) (at x)"
    by (rule has_derivative_radius [OF sx]) simp
  have dN: "(?N has_real_derivative ?N') (at x)"
    by (auto intro!: derivative_eq_intros simp: power2_eq_square)
  have "((\<lambda>t. ?N t / (?r t) ^ 3) has_real_derivative
          (?N' / (?r x) ^ 3 - 3 * (x / ?r x) * ?N x / (?r x) ^ 4)) (at x)"
    by (rule has_derivative_over_cube [OF dN dr rx])
  moreover have "(\<lambda>t. ?N t / (?r t) ^ 3) = (\<lambda>t. spec_f t y z)"
    by (simp add: spec_f_def add.assoc)
  moreover have "?N' / (?r x) ^ 3 - 3 * (x / ?r x) * ?N x / (?r x) ^ 4
      = v0 (compute_myder (Vector x y z))"
  proof -
    have "3 * (x / ?r x) * ?N x / (?r x) ^ 4 = 3 * x * ?N x / (?r x) ^ 5"
      using rx by (simp add: power_Suc numeral_eq_Suc)
    then show ?thesis
      by (simp add: compute_myder_components Let_def add.assoc)
  qed
  ultimately show ?thesis by simp
qed


lemma spec_f_derivative_y:
  assumes nz: "sqrt (x\<^sup>2 + y\<^sup>2 + z\<^sup>2) \<noteq> 0"
  shows "((\<lambda>t. spec_f x t z) has_real_derivative v1 (compute_myder (Vector x y z))) (at y)"
proof -
  let ?a = "x\<^sup>2 + z\<^sup>2"
  let ?r = "\<lambda>t. sqrt (t\<^sup>2 + ?a)"
  let ?N = "\<lambda>t. (x + t + z) ^ 3 + (x - t - z) ^ 3 + (- x + t - z) ^ 3 + (- x - t + z) ^ 3"
  let ?N' = "3 * (x + y + z)\<^sup>2 - 3 * (x - y - z)\<^sup>2 + 3 * (- x + y - z)\<^sup>2 - 3 * (- x - y + z)\<^sup>2"
  have req: "?r t = sqrt (x\<^sup>2 + t\<^sup>2 + z\<^sup>2)" for t by (simp add: add_ac)
  have ry: "?r y \<noteq> 0" using nz by (simp add: req)
  then have sy: "y\<^sup>2 + ?a \<noteq> 0" by auto
  have dr: "(?r has_real_derivative (y / ?r y)) (at y)"
    by (rule has_derivative_radius [OF sy]) simp
  have dN: "(?N has_real_derivative ?N') (at y)"
    by (auto intro!: derivative_eq_intros simp: power2_eq_square)
  have "((\<lambda>t. ?N t / (?r t) ^ 3) has_real_derivative
          (?N' / (?r y) ^ 3 - 3 * (y / ?r y) * ?N y / (?r y) ^ 4)) (at y)"
    by (rule has_derivative_over_cube [OF dN dr ry])
  moreover have "(\<lambda>t. ?N t / (?r t) ^ 3) = (\<lambda>t. spec_f x t z)"
    unfolding req by (simp add: spec_f_def)
  moreover have "?N' / (?r y) ^ 3 - 3 * (y / ?r y) * ?N y / (?r y) ^ 4
      = v1 (compute_myder (Vector x y z))"
  proof -
    have "3 * (y / ?r y) * ?N y / (?r y) ^ 4 = 3 * y * ?N y / (?r y) ^ 5"
      using ry by (simp add: numeral_eq_Suc)
    then show ?thesis
      unfolding req by (simp add: compute_myder_components Let_def)
  qed
  ultimately show ?thesis by simp
qed

lemma spec_f_derivative_z:
  assumes nz: "sqrt (x\<^sup>2 + y\<^sup>2 + z\<^sup>2) \<noteq> 0"
  shows "((\<lambda>t. spec_f x y t) has_real_derivative v2 (compute_myder (Vector x y z))) (at z)"
proof -
  let ?a = "x\<^sup>2 + y\<^sup>2"
  let ?r = "\<lambda>t. sqrt (t\<^sup>2 + ?a)"
  let ?N = "\<lambda>t. (x + y + t) ^ 3 + (x - y - t) ^ 3 + (- x + y - t) ^ 3 + (- x - y + t) ^ 3"
  let ?N' = "3 * (x + y + z)\<^sup>2 - 3 * (x - y - z)\<^sup>2 - 3 * (- x + y - z)\<^sup>2 + 3 * (- x - y + z)\<^sup>2"
  have req: "?r t = sqrt (x\<^sup>2 + y\<^sup>2 + t\<^sup>2)" for t by (simp add: add_ac)
  have rz: "?r z \<noteq> 0" using nz by (simp add: req)
  then have sz: "z\<^sup>2 + ?a \<noteq> 0" by auto
  have dr: "(?r has_real_derivative (z / ?r z)) (at z)"
    by (rule has_derivative_radius [OF sz]) simp
  have dN: "(?N has_real_derivative ?N') (at z)"
    by (auto intro!: derivative_eq_intros simp: power2_eq_square)
  have "((\<lambda>t. ?N t / (?r t) ^ 3) has_real_derivative
          (?N' / (?r z) ^ 3 - 3 * (z / ?r z) * ?N z / (?r z) ^ 4)) (at z)"
    by (rule has_derivative_over_cube [OF dN dr rz])
  moreover have "(\<lambda>t. ?N t / (?r t) ^ 3) = (\<lambda>t. spec_f x y t)"
    unfolding req by (simp add: spec_f_def)
  moreover have "?N' / (?r z) ^ 3 - 3 * (z / ?r z) * ?N z / (?r z) ^ 4
      = v2 (compute_myder (Vector x y z))"
  proof -
    have "3 * (z / ?r z) * ?N z / (?r z) ^ 4 = 3 * z * ?N z / (?r z) ^ 5"
      using rz by (simp add: numeral_eq_Suc)
    then show ?thesis
      unfolding req by (simp add: compute_myder_components Let_def)
  qed
  ultimately show ?thesis by simp
qed


lemma compute_tmp_x_axis: "compute_tmp (Vector t 0 0) = 0"
  by (simp add: compute_tmp_def compute_locals_def Let_def flip: add_divide_distrib)

lemma compute_tmp_xy_line: "compute_tmp (Vector 1 t 0) = 0"
proof -
  have "(1 + t) ^ 3 + (1 - t) ^ 3 + (- 1 + t) ^ 3 + (- 1 - t) ^ 3 = 0"
    by (simp add: power3_eq_cube algebra_simps)
  then show ?thesis
    by (simp add: compute_tmp_def compute_locals_def Let_def flip: add_divide_distrib)
qed

lemma compute_tmp_xz_line: "compute_tmp (Vector 1 0 t) = 0"
proof -
  have "(1 + t) ^ 3 + (1 - t) ^ 3 + (- 1 - t) ^ 3 + (- 1 + t) ^ 3 = 0"
    by (simp add: power3_eq_cube algebra_simps)
  then show ?thesis
    by (simp add: compute_tmp_def compute_locals_def Let_def flip: add_divide_distrib)
qed

text \<open>
  Claim C4: for every distance vector \<open>(x,y,z)\<close> with nonzero modulus, the three
  components of \<open>myder\<close> computed by \<^verbatim>\<open>Tetrahedral::compute\<close> are the partial
  derivatives of \<open>f\<close> with respect to \<open>x\<close>, \<open>y\<close> and \<open>z\<close>; and at \<open>(1,0,0)\<close> each
  component is within \<open>1e-6\<close> of the central-difference estimate of the computed value,
  for every step \<open>0 < h < 1\<close>.
\<close>

theorem C4_compute_myder_is_gradient:
  assumes nz: "Vector_modulo (Vector x y z) \<noteq> 0" and h: "0 < h" "h < 1"
  shows "((\<lambda>t. spec_f t y z) has_real_derivative v0 (compute_myder (Vector x y z))) (at x)
       \<and> ((\<lambda>t. spec_f x t z) has_real_derivative v1 (compute_myder (Vector x y z))) (at y)
       \<and> ((\<lambda>t. spec_f x y t) has_real_derivative v2 (compute_myder (Vector x y z))) (at z)
       \<and> \<bar>v0 (compute_myder (Vector 1 0 0))
            - central_difference (\<lambda>t. compute_tmp (Vector t 0 0)) 1 h\<bar> < 1 / 10 ^ 6
       \<and> \<bar>v1 (compute_myder (Vector 1 0 0))
            - central_difference (\<lambda>t. compute_tmp (Vector 1 t 0)) 0 h\<bar> < 1 / 10 ^ 6
       \<and> \<bar>v2 (compute_myder (Vector 1 0 0))
            - central_difference (\<lambda>t. compute_tmp (Vector 1 0 t)) 0 h\<bar> < 1 / 10 ^ 6"
proof -
  have nz': "sqrt (x\<^sup>2 + y\<^sup>2 + z\<^sup>2) \<noteq> 0"
    using nz by (simp add: Vector_modulo_def)
  have cd: "central_difference (\<lambda>t. compute_tmp (Vector t 0 0)) 1 h = 0"
     "central_difference (\<lambda>t. compute_tmp (Vector 1 t 0)) 0 h = 0"
     "central_difference (\<lambda>t. compute_tmp (Vector 1 0 t)) 0 h = 0"
    by (simp_all add: central_difference_def compute_tmp_x_axis compute_tmp_xy_line compute_tmp_xz_line)
  show ?thesis
    using spec_f_derivative_x [OF nz'] spec_f_derivative_y [OF nz'] spec_f_derivative_z [OF nz']
    by (simp add: cd compute_myder_unit_x)
qed

lemma compute_myder_example: "compute_myder (Vector 1 2 2) = Vector (64 / 27) (- 16 / 27) (- 16 / 27)"
proof -
  have "sqrt 9 = 3" using real_sqrt_abs [of 3] by simp
  then show ?thesis by (simp add: compute_myder_components Let_def)
qed

theorem C4_compute_myder_is_gradient_witness:
  "Vector_modulo (Vector 1 2 2) \<noteq> 0 \<and> (0::real) < 1 / 1000 \<and> (1::real) / 1000 < 1
   \<and> ((\<lambda>t. spec_f t 2 2) has_real_derivative (64 / 27)) (at 1)
   \<and> ((\<lambda>t. spec_f 1 t 2) has_real_derivative (- 16 / 27)) (at 2)
   \<and> ((\<lambda>t. spec_f 1 2 t) has_real_derivative (- 16 / 27)) (at 2)"
proof -
  have nz: "Vector_modulo (Vector 1 2 2) \<noteq> 0"
    by (simp add: Vector_modulo_def)
  have h: "(0::real) < 1 / 1000" by simp
  show ?thesis
    using nz h C4_compute_myder_is_gradient [OF nz h] by (simp add: compute_myder_example)
qed

section \<open>Properties of the grid-function evaluation\<close>

subsection \<open>The argument checks of the constructor\<close>


lemma shape_loop_result:
  "shape_loop a0 ai js =
     (if \<exists>j\<in>set js. getShape a0 ! j \<noteq> getShape ai ! j
      then Inl (ConfigurationError ''mismatched shapes for arguments'') else Inr ())"
  by (induction js) auto

lemma shape_loop_all_dimensions:
  assumes "getRank ai = getRank a0"
  shows "shape_loop a0 ai [0..<getRank a0] =
     (if getShape ai = getShape a0 then Inr ()
      else Inl (ConfigurationError ''mismatched shapes for arguments''))"
proof -
  have len: "length (getShape ai) = length (getShape a0)"
    using assms by (simp add: getRank_def)
  have "(getShape ai = getShape a0) = (\<forall>j<length (getShape a0). getShape a0 ! j = getShape ai ! j)"
    using len by (auto simp: list_eq_iff_nth_eq)
  then show ?thesis
    by (simp add: shape_loop_result getRank_def)
qed

lemma argument_loop_step:
  assumes "getRank ai = getRank a0"
  shows "argument_loop a0 (ai # rest) =
     (if getShape ai = getShape a0 then argument_loop a0 rest
      else Inl (ConfigurationError ''mismatched shapes for arguments''))"
  using assms by (simp add: shape_loop_all_dimensions)


lemma argument_loop_equal_ranks:
  assumes "\<forall>v\<in>set rest. getRank v = getRank a0"
  shows "argument_loop a0 rest =
     (if \<forall>v\<in>set rest. getShape v = getShape a0 then Inr ()
      else Inl (ConfigurationError ''mismatched shapes for arguments''))"
  using assms
proof (induction rest)
  case Nil
  then show ?case by simp
next
  case (Cons ai rest)
  have rk: "getRank ai = getRank a0" using Cons.prems by simp
  have ih: "argument_loop a0 rest =
     (if \<forall>v\<in>set rest. getShape v = getShape a0 then Inr ()
      else Inl (ConfigurationError ''mismatched shapes for arguments''))"
    using Cons.IH Cons.prems by simp
  show ?case
    unfolding argument_loop_step [OF rk] ih by simp
qed

lemma shape_loop_errors:
  "shape_loop a0 ai js = Inl e \<Longrightarrow> e = ConfigurationError ''mismatched shapes for arguments''"
  by (simp add: shape_loop_result split: if_splits)

lemma argument_loop_errors:
  "argument_loop a0 rest = Inl e \<Longrightarrow>
     e = ConfigurationError ''mismatched ranks for arguments'' \<or>
     e = ConfigurationError ''mismatched shapes for arguments''"
proof (induction rest)
  case Nil
  then show ?case by simp
next
  case (Cons ai rest)
  show ?case
  proof (cases "getRank a0 \<noteq> getRank ai")
    case True
    with Cons.prems show ?thesis by simp
  next
    case False
    show ?thesis
    proof (cases "shape_loop a0 ai [0..<getRank a0]")
      case (Inl e')
      with False Cons.prems have "e = e'" by simp
      with Inl shape_loop_errors show ?thesis by blast
    next
      case (Inr u)
      with False Cons.prems have "argument_loop a0 rest = Inl e" by simp
      then show ?thesis by (rule Cons.IH)
    qed
  qed
qed


lemma check_arguments_equal_ranks:
  assumes ranks: "\<forall>v\<in>set argv. \<forall>w\<in>set argv. getRank v = getRank w"
    and v: "v \<in> set argv" and w: "w \<in> set argv" and diff: "getShape v \<noteq> getShape w"
  shows "check_arguments argv = Inl (ConfigurationError ''mismatched shapes for arguments'')"
proof (cases argv)
  case Nil
  with v show ?thesis by simp
next
  case (Cons a0 rest)
  have r: "\<forall>u\<in>set rest. getRank u = getRank a0"
  proof
    fix u assume "u \<in> set rest"
    then have "u \<in> set argv" and "a0 \<in> set argv" using Cons by simp_all
    then show "getRank u = getRank a0" using ranks by blast
  qed
  have "\<not> (\<forall>u\<in>set rest. getShape u = getShape a0)"
  proof
    assume "\<forall>u\<in>set rest. getShape u = getShape a0"
    then have all: "\<And>u. u \<in> set argv \<Longrightarrow> getShape u = getShape a0"
      using Cons by auto
    have "getShape v = getShape w"
      using all [OF v] all [OF w] by simp
    with diff show False by contradiction
  qed
  then have "argument_loop a0 rest = Inl (ConfigurationError ''mismatched shapes for arguments'')"
    unfolding argument_loop_equal_ranks [OF r] by simp
  then show ?thesis
    unfolding check_arguments_def Cons by simp
qed

lemma argument_loop_accepts:
  "argument_loop a0 rest = Inr u \<Longrightarrow> \<forall>x\<in>set rest. getShape x = getShape a0"
proof (induction rest)
  case Nil
  then show ?case by simp
next
  case (Cons ai rest)
  have rk: "getRank ai = getRank a0"
  proof (rule ccontr)
    assume "getRank ai \<noteq> getRank a0"
    then have "argument_loop a0 (ai # rest)
                 = Inl (ConfigurationError ''mismatched ranks for arguments'')"
      by auto
    with Cons.prems show False by simp
  qed
  have step: "(if getShape ai = getShape a0 then argument_loop a0 rest
      else Inl (ConfigurationError ''mismatched shapes for arguments'')) = Inr u"
    using Cons.prems unfolding argument_loop_step [OF rk] .
  have sh: "getShape ai = getShape a0"
  proof (rule ccontr)
    assume "getShape ai \<noteq> getShape a0"
    with step show False by simp
  qed
  with step have "argument_loop a0 rest = Inr u" by simp
  then have "\<forall>x\<in>set rest. getShape x = getShape a0" by (rule Cons.IH)
  with sh show ?case by simp
qed

lemma check_arguments_rejects:
  assumes v: "v \<in> set argv" and w: "w \<in> set argv" and diff: "getShape v \<noteq> getShape w"
  shows "check_arguments argv = Inl (ConfigurationError ''mismatched shapes for arguments'')
       \<or> check_arguments argv = Inl (ConfigurationError ''mismatched ranks for arguments'')"
proof (cases argv)
  case Nil
  with v show ?thesis by simp
next
  case (Cons a0 rest)
  show ?thesis
  proof (cases "argument_loop a0 rest")
    case (Inl e)
    then have "e = ConfigurationError ''mismatched ranks for arguments'' \<or>
               e = ConfigurationError ''mismatched shapes for arguments''"
      by (rule argument_loop_errors)
    with Inl show ?thesis
      unfolding check_arguments_def Cons by auto
  next
    case (Inr u)
    then have "\<forall>x\<in>set rest. getShape x = getShape a0"
      by (rule argument_loop_accepts)
    then have all: "\<And>x. x \<in> set argv \<Longrightarrow> getShape x = getShape a0"
      using Cons by auto
    have "getShape v = getShape w"
      using all [OF v] all [OF w] by simp
    with diff show ?thesis by contradiction
  qed
qed

text \<open>
  Claim C2, as stated: whenever two resolved arguments differ in shape in some dimension,
  construction fails with a configuration error that mentions "mismatched shapes".  The
  shapes \<open>(10,)\<close> and \<open>(12,5)\<close> differ in dimension 0, yet the constructor stops at the
  rank test of line 62 and the message is "mismatched ranks for arguments".
\<close>

theorem C2_rank_mismatch_reported_instead:
  "getShape \<lparr>getName = ''cv1'', getShape = [10]\<rparr> ! 0
     \<noteq> getShape \<lparr>getName = ''cv2'', getShape = [12, 5]\<rparr> ! 0 \<and>
   EvaluateFunctionOnGrid_ctor
     (options_with_arguments
        [\<lparr>getName = ''cv1'', getShape = [10]\<rparr>, \<lparr>getName = ''cv2'', getShape = [12, 5]\<rparr>])
   = Inl (ConfigurationError ''mismatched ranks for arguments'') \<and>
   \<not> sublist ''mismatched shapes'' ''mismatched ranks for arguments''"
proof -
  have "\<not> sublist ''mismatched shapes'' ''mismatched ranks for arguments''"
    by (simp add: sublist_Cons_right)
  then show ?thesis
    by (simp add: EvaluateFunctionOnGrid_ctor_def options_with_arguments_def example_options_def
        example_header_def check_arguments_def getRank_def Let_def)
qed

text \<open>
  Claim C2, amended: when the grid type has passed the test of line 54 and the argument
  names have been resolved, if any two of the resolved arguments differ in shape, the
  constructor returns a configuration error whose text is "mismatched shapes for
  arguments" or "mismatched ranks for arguments"; when all resolved arguments have the
  same rank the text is "mismatched shapes for arguments".  The result is an error value
  and no object, so no task function can be applied to it.
\<close>

theorem C2_mismatched_shapes_rejected:
  assumes fib: "gtype (getInfoForGridHeader ao) \<noteq> ''fibonacci''"
    and argv: "interpretArgumentList ao (argn (getInfoForGridHeader ao)) = Inr argv"
    and v: "v \<in> set argv" and w: "w \<in> set argv"
    and diff: "getShape v \<noteq> getShape w"
  shows "(EvaluateFunctionOnGrid_ctor ao
            = Inl (ConfigurationError ''mismatched shapes for arguments'')
          \<or> EvaluateFunctionOnGrid_ctor ao
            = Inl (ConfigurationError ''mismatched ranks for arguments''))
       \<and> ((\<forall>x\<in>set argv. \<forall>y\<in>set argv. getRank x = getRank y) \<longrightarrow>
            EvaluateFunctionOnGrid_ctor ao
              = Inl (ConfigurationError ''mismatched shapes for arguments''))
       \<and> sublist ''mismatched shapes'' ''mismatched shapes for arguments''"
proof -
  have ctor: "EvaluateFunctionOnGrid_ctor ao = Inl e" if "check_arguments argv = Inl e" for e
    unfolding EvaluateFunctionOnGrid_ctor_def Let_def using fib by (simp add: argv that)
  have one: "EvaluateFunctionOnGrid_ctor ao
            = Inl (ConfigurationError ''mismatched shapes for arguments'')
          \<or> EvaluateFunctionOnGrid_ctor ao
            = Inl (ConfigurationError ''mismatched ranks for arguments'')"
    using check_arguments_rejects [OF v w diff] ctor by blast
  have two: "EvaluateFunctionOnGrid_ctor ao
              = Inl (ConfigurationError ''mismatched shapes for arguments'')"
    if ranks: "\<forall>x\<in>set argv. \<forall>y\<in>set argv. getRank x = getRank y"
    using check_arguments_equal_ranks [OF ranks v w diff] by (rule ctor)
  have "sublist ''mismatched shapes'' (''mismatched shapes'' @ '' for arguments'')"
    by (rule sublist_append_rightI)
  then have mention: "sublist ''mismatched shapes'' ''mismatched shapes for arguments''"
    by simp
  from one two mention show ?thesis by blast
qed

theorem C2_mismatched_shapes_rejected_witness:
  "getRank \<lparr>getName = ''cv1'', getShape = [10]\<rparr> = getRank \<lparr>getName = ''cv2'', getShape = [12]\<rparr> \<and>
   getShape \<lparr>getName = ''cv1'', getShape = [10]\<rparr> \<noteq> getShape \<lparr>getName = ''cv2'', getShape = [12]\<rparr> \<and>
   EvaluateFunctionOnGrid_ctor
     (options_with_arguments
        [\<lparr>getName = ''cv1'', getShape = [10]\<rparr>, \<lparr>getName = ''cv2'', getShape = [12]\<rparr>])
   = Inl (ConfigurationError ''mismatched shapes for arguments'')"
proof -
  let ?a = "\<lparr>getName = ''cv1'', getShape = [10]\<rparr>"
  let ?b = "\<lparr>getName = ''cv2'', getShape = [12]\<rparr>"
  let ?ao = "options_with_arguments [?a, ?b]"
  have fib: "gtype (getInfoForGridHeader ?ao) \<noteq> ''fibonacci''"
    by (simp add: options_with_arguments_def example_header_def)
  have argv: "interpretArgumentList ?ao (argn (getInfoForGridHeader ?ao)) = Inr [?a, ?b]"
    by (simp add: options_with_arguments_def)
  have ranks: "\<forall>x\<in>set [?a, ?b]. \<forall>y\<in>set [?a, ?b]. getRank x = getRank y"
    by (simp add: getRank_def)
  have v: "?a \<in> set [?a, ?b]" and w: "?b \<in> set [?a, ?b]" by simp_all
  have diff: "getShape ?a \<noteq> getShape ?b" by simp
  have rk: "getRank ?a = getRank ?b" by (simp add: getRank_def)
  from C2_mismatched_shapes_rejected [OF fib argv v w diff] ranks rk diff
  show ?thesis by blast
qed

text \<open>
  Claim C5, as stated: the configuration error raised at a shape mismatch names the
  offending argument and the dimension index.  Two constructions that fail at different
  arguments (\<open>cv2\<close>, \<open>cv3\<close>) and different dimensions (0, 1) return the very same error,
  whose text contains neither an argument name nor a digit.
\<close>

theorem C5_same_message_for_different_mismatches:
  "EvaluateFunctionOnGrid_ctor (options_with_arguments mismatch_second_argument)
     = Inl (ConfigurationError ''mismatched shapes for arguments'') \<and>
   EvaluateFunctionOnGrid_ctor (options_with_arguments mismatch_third_argument)
     = Inl (ConfigurationError ''mismatched shapes for arguments'') \<and>
   \<not> sublist ''cv2'' ''mismatched shapes for arguments'' \<and>
   \<not> sublist ''cv3'' ''mismatched shapes for arguments'' \<and>
   \<not> sublist ''0'' ''mismatched shapes for arguments'' \<and>
   \<not> sublist ''1'' ''mismatched shapes for arguments''"
proof -
  have "EvaluateFunctionOnGrid_ctor (options_with_arguments mismatch_second_argument)
     = Inl (ConfigurationError ''mismatched shapes for arguments'')"
    by (simp add: EvaluateFunctionOnGrid_ctor_def options_with_arguments_def example_options_def
        example_header_def check_arguments_def getRank_def Let_def mismatch_second_argument_def upt_conv_Cons)
  moreover have "EvaluateFunctionOnGrid_ctor (options_with_arguments mismatch_third_argument)
     = Inl (ConfigurationError ''mismatched shapes for arguments'')"
    by (simp add: EvaluateFunctionOnGrid_ctor_def options_with_arguments_def example_options_def
        example_header_def check_arguments_def getRank_def Let_def mismatch_third_argument_def upt_conv_Cons)
  moreover have "\<not> sublist ''cv2'' ''mismatched shapes for arguments''"
    "\<not> sublist ''cv3'' ''mismatched shapes for arguments''"
    "\<not> sublist ''0'' ''mismatched shapes for arguments''"
    "\<not> sublist ''1'' ''mismatched shapes for arguments''"
    by (simp_all add: sublist_Cons_right)
  ultimately show ?thesis by simp
qed

text \<open>
  Claim C5, amended: whenever the argument checks of lines 61--66 fail, the text handed
  to \<^verbatim>\<open>error\<close> is one of the two fixed strings "mismatched ranks for arguments" and
  "mismatched shapes for arguments"; it depends neither on which argument nor on which
  dimension disagrees.
\<close>

theorem C5_fixed_error_messages:
  assumes "check_arguments argv = Inl e"
  shows "e = ConfigurationError ''mismatched ranks for arguments'' \<or>
         e = ConfigurationError ''mismatched shapes for arguments''"
proof (cases argv)
  case Nil
  with assms show ?thesis by (simp add: check_arguments_def)
next
  case (Cons a0 rest)
  with assms have "argument_loop a0 rest = Inl e" by (simp add: check_arguments_def)
  then show ?thesis by (rule argument_loop_errors)
qed

theorem C5_fixed_error_messages_witness:
  "check_arguments mismatch_third_argument = Inl (ConfigurationError ''mismatched shapes for arguments'') \<and>
   (ConfigurationError ''mismatched shapes for arguments'' = ConfigurationError ''mismatched ranks for arguments'' \<or>
    ConfigurationError ''mismatched shapes for arguments'' = ConfigurationError ''mismatched shapes for arguments'')"
proof -
  have c: "check_arguments mismatch_third_argument = Inl (ConfigurationError ''mismatched shapes for arguments'')"
    by (simp add: check_arguments_def getRank_def mismatch_third_argument_def upt_conv_Cons)
  show ?thesis using c C5_fixed_error_messages [OF c] by simp
qed

subsection \<open>The grid type\<close>

text \<open>
  Claim C6: on an upstream grid of type "fibonacci" the constructor fails with a
  configuration error.  The failure is the result of the constructor itself: what is
  returned is the error and no object, so nothing is left for a task to run on.
\<close>

theorem C6_fibonacci_rejected:
  assumes "gtype (getInfoForGridHeader ao) = ''fibonacci''"
  shows "EvaluateFunctionOnGrid_ctor ao
           = Inl (ConfigurationError ''cannot interpolate on fibonacci sphere'')"
  using assms by (simp add: EvaluateFunctionOnGrid_ctor_def)

theorem C6_fibonacci_rejected_witness:
  "gtype (getInfoForGridHeader fibonacci_options) = ''fibonacci'' \<and>
   EvaluateFunctionOnGrid_ctor fibonacci_options
           = Inl (ConfigurationError ''cannot interpolate on fibonacci sphere'')"
proof -
  have g: "gtype (getInfoForGridHeader fibonacci_options) = ''fibonacci''"
    by (simp add: fibonacci_options_def)
  show ?thesis using g C6_fibonacci_rejected [OF g] by simp
qed

subsection \<open>Successful constructions\<close>

lemma ctor_example: "EvaluateFunctionOnGrid_ctor example_options = Inr example_action"
  by (simp add: EvaluateFunctionOnGrid_ctor_def example_options_def example_header_def
      scalar_arguments_def check_arguments_def getRank_def Let_def example_action_def)

lemma ctor_chained:
  "EvaluateFunctionOnGrid_ctor chained_options
     = Inr (example_action\<lparr>distinct_arguments := [(''upstream'', 0)], nderivatives := 7\<rparr>)"
  by (simp add: EvaluateFunctionOnGrid_ctor_def chained_options_def example_options_def example_header_def
      scalar_arguments_def check_arguments_def getRank_def Let_def example_action_def)

lemma ctor_success:
  assumes "EvaluateFunctionOnGrid_ctor ao = Inr a"
  obtains argv where
    "interpretArgumentList ao (argn (getInfoForGridHeader ao)) = Inr argv"
    "a = \<lparr> arg_ends = 1 # map (\<lambda>i. 2 + i) [0..<getRank (getPntrToArgument0 ao)],
           arguments = getPntrToArgument0 ao # argv,
           distinct_arguments = requestArguments ao (getPntrToArgument0 ao # argv),
           output_shape = map (\<lambda>i. getShape (hd argv) ! i) [0..<getRank (hd argv)],
           output_has_derivatives = (getRank (hd argv) = 0),
           output_periodic = False,
           tasks = createTasksFromArguments ao (getPntrToArgument0 ao # argv),
           nderivatives =
             (if length (requestArguments ao (getPntrToArgument0 ao # argv)) > 0
              then setupActionInChain ao 1 else length (getPntrToArgument0 ao # argv)),
           firststep = True,
           gridobject = None,
           log_lines = [''  arguments for grid are'']
                          @ map (\<lambda>v. '' '' @ getName v) argv @ [[CHR 0x0A]] \<rparr>"
proof -
  have ne: "gtype (getInfoForGridHeader ao) \<noteq> ''fibonacci''"
    using assms by (auto simp: EvaluateFunctionOnGrid_ctor_def)
  obtain argv where argv: "interpretArgumentList ao (argn (getInfoForGridHeader ao)) = Inr argv"
    using assms ne by (cases "interpretArgumentList ao (argn (getInfoForGridHeader ao))")
      (simp_all add: EvaluateFunctionOnGrid_ctor_def Let_def)
  have chk: "check_arguments argv = Inr ()"
    using assms ne argv by (cases "check_arguments argv")
      (simp_all add: EvaluateFunctionOnGrid_ctor_def Let_def)
  obtain a0 rest where ar: "argv = a0 # rest"
    using assms ne argv chk by (cases argv)
      (simp_all add: EvaluateFunctionOnGrid_ctor_def Let_def)
  have "EvaluateFunctionOnGrid_ctor ao = Inr \<lparr> arg_ends = 1 # map (\<lambda>i. 2 + i) [0..<getRank (getPntrToArgument0 ao)],
           arguments = getPntrToArgument0 ao # argv,
           distinct_arguments = requestArguments ao (getPntrToArgument0 ao # argv),
           output_shape = map (\<lambda>i. getShape (hd argv) ! i) [0..<getRank (hd argv)],
           output_has_derivatives = (getRank (hd argv) = 0),
           output_periodic = False,
           tasks = createTasksFromArguments ao (getPntrToArgument0 ao # argv),
           nderivatives =
             (if length (requestArguments ao (getPntrToArgument0 ao # argv)) > 0
              then setupActionInChain ao 1 else length (getPntrToArgument0 ao # argv)),
           firststep = True,
           gridobject = None,
           log_lines = [''  arguments for grid are'']
                          @ map (\<lambda>v. '' '' @ getName v) argv @ [[CHR 0x0A]] \<rparr>"
    (is "_ = Inr ?r")
    using ne by (simp add: EvaluateFunctionOnGrid_ctor_def Let_def argv [unfolded ar] chk [unfolded ar] ar)
  with assms have "a = ?r" by simp
  with argv that show ?thesis by blast
qed

text \<open>
  Claim C8: after construction, the number of derivative slots equals the number of
  arguments of the object when the set of distinct arguments is empty, and the chained
  derivative count \<^verbatim>\<open>setupActionInChain(1)\<close> otherwise.
\<close>

theorem C8_nderivatives:
  assumes "EvaluateFunctionOnGrid_ctor ao = Inr a"
  shows "nderivatives a =
      (if distinct_arguments a = [] then getNumberOfArguments a else setupActionInChain ao 1)"
proof -
  from assms obtain argv where
    "nderivatives a =
       (if length (requestArguments ao (getPntrToArgument0 ao # argv)) > 0
        then setupActionInChain ao 1 else length (getPntrToArgument0 ao # argv))"
    "distinct_arguments a = requestArguments ao (getPntrToArgument0 ao # argv)"
    "arguments a = getPntrToArgument0 ao # argv"
    by (rule ctor_success) simp
  then show ?thesis
    by (simp add: getNumberOfArguments_def)
qed

theorem C8_nderivatives_witness:
  "EvaluateFunctionOnGrid_ctor example_options = Inr example_action
   \<and> distinct_arguments example_action = []
   \<and> getNumberOfArguments example_action = 2
   \<and> nderivatives example_action = 2
   \<and> nderivatives (example_action\<lparr>distinct_arguments := [(''upstream'', 0)], nderivatives := 7\<rparr>)
       = setupActionInChain chained_options 1"
proof -
  have a: "distinct_arguments example_action = []" "getNumberOfArguments example_action = 2"
    by (simp_all add: example_action_def getNumberOfArguments_def)
  have "nderivatives example_action = 2"
    using C8_nderivatives [OF ctor_example] by (simp add: a)
  moreover have "nderivatives (example_action\<lparr>distinct_arguments := [(''upstream'', 0)], nderivatives := 7\<rparr>)
       = setupActionInChain chained_options 1"
    using C8_nderivatives [OF ctor_chained] by simp
  ultimately show ?thesis
    using ctor_example a by simp
qed

subsection \<open>The pass-preparation hook\<close>

lemma prepareForTasks_after_first:
  "\<not> firststep b \<Longrightarrow> prepareForTasks ao n t b = b"
  by (simp add: prepareForTasks_def)

text \<open>
  Claim C7: a constructed object has \<open>firststep\<close> true; the first call of
  \<^verbatim>\<open>prepareForTasks\<close> derives the grid metadata from the upstream header and clears
  the flag; a second call, and any call on a state whose flag is false, returns the state
  unchanged, whatever the upstream header has become in the meantime.
\<close>

theorem C7_prepareForTasks_once:
  assumes "EvaluateFunctionOnGrid_ctor ao = Inr a"
  shows "firststep a
       \<and> prepareForTasks ao n1 t1 a
           = a\<lparr>gridobject := Some (getInfoForGridHeader ao), firststep := False\<rparr>
       \<and> prepareForTasks ao' n2 t2 (prepareForTasks ao n1 t1 a) = prepareForTasks ao n1 t1 a
       \<and> prepareForTasks ao' n2 t2 (b\<lparr>firststep := False\<rparr>) = b\<lparr>firststep := False\<rparr>"
proof -
  from assms obtain argv where "firststep a"
    by (rule ctor_success) simp
  then have first: "prepareForTasks ao n1 t1 a
           = a\<lparr>gridobject := Some (getInfoForGridHeader ao), firststep := False\<rparr>"
    by (simp add: prepareForTasks_def setupGridObject_def)
  have "\<not> firststep (prepareForTasks ao n1 t1 a)"
    unfolding first by simp
  then have "prepareForTasks ao' n2 t2 (prepareForTasks ao n1 t1 a) = prepareForTasks ao n1 t1 a"
    by (rule prepareForTasks_after_first)
  moreover have "prepareForTasks ao' n2 t2 (b\<lparr>firststep := False\<rparr>) = b\<lparr>firststep := False\<rparr>"
    by (rule prepareForTasks_after_first) simp
  ultimately show ?thesis
    using \<open>firststep a\<close> first by simp
qed

theorem C7_prepareForTasks_once_witness:
  "EvaluateFunctionOnGrid_ctor example_options = Inr example_action
   \<and> firststep example_action
   \<and> prepareForTasks example_options 1 [0] example_action
       = example_action\<lparr>gridobject := Some example_header, firststep := False\<rparr>
   \<and> prepareForTasks example_options 1 [0] (prepareForTasks example_options 1 [0] example_action)
       = prepareForTasks example_options 1 [0] example_action"
proof -
  note w = C7_prepareForTasks_once [OF ctor_example, of 1 "[0]" example_options 1 "[0]" example_action]
  have h: "getInfoForGridHeader example_options = example_header"
    by (simp add: example_options_def)
  from w ctor_example show ?thesis unfolding h by blast
qed

subsection \<open>The task function\<close>

lemma performTask_derivatives_unchanged:
  "stream_derivatives (performTask ao a current myvals) = stream_derivatives myvals"
  by (simp add: performTask_def addValue_def Let_def split: prod.split)

lemma performTask_value:
  "stream_values (performTask ao a current myvals) (getPositionInStream ao)
     = stream_values myvals (getPositionInStream ao)
       + fst (getFunctionValueAndDerivatives ao
                (retrieveArguments ao myvals ((getNumberOfArguments a + 2 ^ 32 - 1) mod 2 ^ 32) 1))"
  by (simp add: performTask_def addValue_def Let_def split: prod.split)

text \<open>
  Claim C1: with derivatives requested, \<^verbatim>\<open>performTask\<close> writes the partial
  derivative with respect to every sampled coordinate into the slot of that coordinate.
  The code does not: for a grid over one coordinate with value 3, function value 9 and
  derivative 6, the value 9 reaches output stream 2 but derivative slot 0 of that stream
  keeps its initial 0, where the task function worded by the specification stores 6.
\<close>

theorem C1_performTask_drops_derivatives:
  "EvaluateFunctionOnGrid_ctor example_options = Inr example_action
   \<and> \<not> doNotCalculateDerivatives example_options
   \<and> getFunctionValueAndDerivatives example_options
        (retrieveArguments example_options example_myvals 1 1) = (9, [6])
   \<and> stream_values (performTask example_options example_action 0 example_myvals) 2 = 9
   \<and> stream_derivatives (performTask example_options example_action 0 example_myvals) 2 0 = 0
   \<and> stream_derivatives (spec_performTask example_options example_action 0 example_myvals) 2 0 = 6"
proof -
  have n: "(getNumberOfArguments example_action + 2 ^ 32 - 1) mod 2 ^ 32 = 1"
    by (simp add: getNumberOfArguments_def example_action_def)
  have r: "retrieveArguments example_options example_myvals 1 1 = [3]"
    by (simp add: example_options_def example_myvals_def upt_conv_Cons)
  have f: "getFunctionValueAndDerivatives example_options [3] = (9, [6])"
    by (simp add: example_options_def)
  have o: "getPositionInStream example_options = 2"
    "doNotCalculateDerivatives example_options = False"
    by (simp_all add: example_options_def)
  have req: "\<not> doNotCalculateDerivatives example_options"
    by (simp add: o)
  have v: "stream_values (performTask example_options example_action 0 example_myvals) 2 = 9"
    unfolding performTask_def Let_def n o r f
    by (simp add: addValue_def example_myvals_def)
  have d: "stream_derivatives (performTask example_options example_action 0 example_myvals) 2 0 = 0"
    by (simp add: performTask_derivatives_unchanged) (simp add: example_myvals_def)
  have s: "stream_derivatives (spec_performTask example_options example_action 0 example_myvals) 2 0 = 6"
    unfolding spec_performTask_def Let_def n o r f
    by (simp add: addValue_def addDerivative_def example_myvals_def)
  have rf: "getFunctionValueAndDerivatives example_options
        (retrieveArguments example_options example_myvals 1 1) = (9, [6])"
    unfolding r by (rule f)
  from ctor_example req rf v d s show ?thesis by blast
qed

end
